theory Spec2Isabelle
  imports Main "HOL-Library.AList"
begin

section \<open>Python values used by the graph scripts\<close>

text \<open>
  Strings are character lists. A cell of a pandas table or of a metadata dictionary is
  either a string or the missing value NaN, written \<open>None\<close>. A Python dictionary is an
  association list kept in insertion order; \<open>AList.update\<close> is the assignment
  \<^verbatim>\<open>d[k] = v\<close> (replace in place when the key is there, append otherwise) and
  \<open>map_of\<close> is \<^verbatim>\<open>d.get(k)\<close>.
\<close>

type_synonym cell = "string option"

type_synonym pydict = "(string \<times> cell) list"

datatype error =
    KeyError string
  | NullKey string
  | AlreadyRegistered string string string
  | NotFound string
  | MetadataAlreadySet string
  | LengthMismatch
  | HyphenKey string
  | DuplicateNodes
  | NotIterable
  | ExtraFields

text \<open>
  The scripts raise \<^verbatim>\<open>ValueError\<close> everywhere; the constructors keep the raise sites apart.
  \<open>AlreadyRegistered\<close> is the specification's DuplicateEntityError, \<open>NotFound\<close> its
  UnknownEntityError, \<open>MetadataAlreadySet\<close> its DuplicateMetadataError and \<open>HyphenKey\<close>
  its InvalidAttributeKeyError. \<open>KeyError\<close> is pandas' error for a column that is not
  there, \<open>NotIterable\<close> the \<^verbatim>\<open>TypeError\<close> of iterating \<^verbatim>\<open>None\<close>, \<open>ExtraFields\<close> the error
  of \<^verbatim>\<open>csv.DictWriter\<close> for a row with a key that is no field name. \<open>NullKey\<close> marks where
  the model stops: a node table whose key column holds NaN (the tabular source contract
  excludes it; names are strings throughout the model).
\<close>

subsection \<open>String methods\<close>

definition ascii_uppercase :: string where
  "ascii_uppercase = ''ABCDEFGHIJKLMNOPQRSTUVWXYZ''"

definition ascii_lowercase :: string where
  "ascii_lowercase = ''abcdefghijklmnopqrstuvwxyz''"

definition lower_char :: "char \<Rightarrow> char" where
  "lower_char c = (case map_of (zip ascii_uppercase ascii_lowercase) c of
                     None \<Rightarrow> c | Some d \<Rightarrow> d)"

text \<open>\<^verbatim>\<open>s.lower()\<close> on ASCII text: the letters A to Z are mapped, every other character stays.\<close>

definition lower :: "string \<Rightarrow> string" where
  "lower s = map lower_char s"

text \<open>\<^verbatim>\<open>s.replace(old, new)\<close> for a pattern \<open>old\<close> of one character.\<close>

definition replace :: "char \<Rightarrow> string \<Rightarrow> string \<Rightarrow> string" where
  "replace old new s = concat (map (\<lambda>c. if c = old then new else [c]) s)"

text \<open>The ASCII characters \<^verbatim>\<open>str.isspace\<close> accepts: tab, line feed, vertical tab, form feed,
  carriage return, the four separators 28 to 31, and the space.\<close>

definition whitespace :: "char list" where
  "whitespace = [CHR 0x09, CHR 0x0A, CHR 0x0B, CHR 0x0C, CHR 0x0D,
                 CHR 0x1C, CHR 0x1D, CHR 0x1E, CHR 0x1F, CHR '' '']"

definition isspace :: "char \<Rightarrow> bool" where
  "isspace c = (c \<in> set whitespace)"

definition strip :: "string \<Rightarrow> string" where
  "strip s = rev (dropWhile isspace (rev (dropWhile isspace s)))"

text \<open>\<^verbatim>\<open>s.split(", ")\<close>: the pieces between the occurrences of comma-space, scanned from the
  left; a string without the separator is its own single piece.\<close>

fun split_acc :: "string \<Rightarrow> string \<Rightarrow> string list" where
  "split_acc acc [] = [rev acc]"
| "split_acc acc [c] = [rev (c # acc)]"
| "split_acc acc (c # d # cs) =
     (if c = CHR '','' \<and> d = CHR '' '' then rev acc # split_acc [] cs
      else split_acc (c # acc) (d # cs))"

definition split_comma_space :: "string \<Rightarrow> string list" where
  "split_comma_space s = split_acc [] s"

section \<open>helpers.py\<close>

definition cleanup_string :: "string \<Rightarrow> string" where
  "cleanup_string s =
     replace (CHR ''.'') ''_''
       (replace (CHR '')'') ''''
         (replace (CHR ''('') ''''
           (replace (CHR ''/'') ''_''
             (replace (CHR '':'') ''''
               (replace (CHR '' '') ''_'' (lower s))))))"

text \<open>The dictionary comprehension of \<open>cleanup_key_names\<close>: keys are inserted in order, and
  a later key that cleans up to the same string overwrites the value.\<close>

definition cleanup_key_names :: "pydict \<Rightarrow> pydict" where
  "cleanup_key_names d = fold (\<lambda>(k, v) acc. AList.update (cleanup_string k) v acc) d []"

section \<open>mapping.py\<close>

text \<open>The module's global registries, as one record that every function takes and, where
  the Python mutates a registry, returns.\<close>

record globals =
  TYPES_MAP :: "(string \<times> string) list"
  NODE_METADATA :: "(string \<times> pydict) list"
  NAMES_MAP :: "(string \<times> string) list"
  DROP_COMPONENTS :: "string list"
  EXPANSIONS :: "(string \<times> string list) list"
  RELATIONSHIPS :: "(string \<times> string set) list"

definition shipped_NAMES_MAP :: "(string \<times> string) list" where
  "shipped_NAMES_MAP = [
    (''E2'', ''E2 Interface''),
    (''xApps'', ''Near-RT RIC''),
    (''xAPPs'', ''Near-RT RIC''),
    (''rApps'', ''Non-RT RIC''),
    (''rAPPs'', ''Non-RT RIC''),
    (''ASSET-C-29'', ''O-Cloud''),
    (''ASSET-C-30'', ''External Components''),
    (''ASSET-C-08'', ''O-Cloud''),
    (''NFO/FOCOM'', ''O-Cloud''),
    (''Database holding data from xApp applications and E2 Node'', ''Near-RT RIC''),
    (''Database holding data from xApp applications and E2'', ''Near-RT RIC''),
    (''ML components deploying machine learning (xApps/rApps)'', ''O-Cloud''),
    (''Training or test data sets collected externally or internally'', ''External Components''),
    (''Trained ML model'', ''External Components''),
    (''Near-RT-RIC SW'', ''Near-RT RIC''),
    (''Non-RT-RIC SW'', ''Non-RT RIC''),
    (''O1 interface for streaming data'', ''O1 Interface''),
    (''E2 interface for streaming data'', ''E2 Interface''),
    (''ML prediction results'', ''External Components''),
    (''A1 policies'', ''A1 Interface''),
    (''E2 node data'', ''Near-RT RIC''),
    (''Data transported over the O1 interface'', ''O1 Interface''),
    (''AAL software'', ''O-Cloud''),
    (''Hardware accelerator device firmware'', ''External Components''),
    (''Non-RT-RIC'', ''Non-RT RIC''),
    (''airlink with UE'', ''Airlink''),
    (''E2 Functions'', ''E2 Interface''),
    (''Y1 Functions'', ''Y1 Interface''),
    (''SMO Framework'', ''SMO''),
    (''R1 interface'', ''R1 Interface''),
    (''A1 interface'', ''A1 Interface''),
    (''Apps/VNFs/CNFs'', ''SMO''),
    (''Apps/VNFs/CNFs images'', ''SMO''),
    (''O2'', ''O2 Interface'')]"

text \<open>The registries as the module creates them on import.\<close>

definition initial_globals :: globals where
  "initial_globals = \<lparr> TYPES_MAP = [], NODE_METADATA = [], NAMES_MAP = shipped_NAMES_MAP,
     DROP_COMPONENTS = [], EXPANSIONS = [], RELATIONSHIPS = [] \<rparr>"

subsection \<open>Tables\<close>

text \<open>A pandas table: its column names and its rows, each row the cells in column order.
  \<open>row_get\<close> is \<^verbatim>\<open>row[col]\<close> on a row of \<^verbatim>\<open>df.iterrows()\<close>; \<open>row_name\<close> reads a
  key column, whose cells are names.\<close>

record dataframe =
  columns :: "string list"
  rows :: "cell list list"

definition row_get :: "dataframe \<Rightarrow> cell list \<Rightarrow> string \<Rightarrow> error + cell" where
  "row_get df r col = (case map_of (zip (columns df) r) col of
                         None \<Rightarrow> Inl (KeyError col) | Some v \<Rightarrow> Inr v)"

definition row_name :: "dataframe \<Rightarrow> cell list \<Rightarrow> string \<Rightarrow> error + string" where
  "row_name df r col = (case row_get df r col of
                          Inl e \<Rightarrow> Inl e
                        | Inr None \<Rightarrow> Inl (NullKey col)
                        | Inr (Some n) \<Rightarrow> Inr n)"

fun collect :: "(error + 'a) list \<Rightarrow> error + 'a list" where
  "collect [] = Inr []"
| "collect (Inl e # _) = Inl e"
| "collect (Inr x # xs) = (case collect xs of Inl e \<Rightarrow> Inl e | Inr ys \<Rightarrow> Inr (x # ys))"

subsection \<open>Relationships\<close>

type_synonym relationship_tuple = "cell \<times> cell \<times> string \<times> string list option \<times> bool"

definition expand_relationship ::
  "dataframe \<Rightarrow> string \<Rightarrow> string \<Rightarrow> string \<Rightarrow> string list option \<Rightarrow> bool
    \<Rightarrow> error + relationship_tuple list" where
  "expand_relationship df src dst relationship expansion reverse =
     collect (map (\<lambda>r. case row_get df r src of
                          Inl e \<Rightarrow> Inl e
                        | Inr s \<Rightarrow> (case row_get df r dst of
                                     Inl e \<Rightarrow> Inl e
                                   | Inr d \<Rightarrow> Inr (s, d, relationship, expansion, reverse)))
                  (rows df))"

definition record_relationship :: "globals \<Rightarrow> string \<Rightarrow> string \<Rightarrow> string \<Rightarrow> globals" where
  "record_relationship g src_type dst_type relationship_type =
     (let dsts = (case map_of (RELATIONSHIPS g) src_type of None \<Rightarrow> {} | Some d \<Rightarrow> d)
      in g\<lparr>RELATIONSHIPS :=
             AList.update src_type
               (insert (''--'' @ relationship_type @ ''--> '' @ dst_type) dsts)
               (RELATIONSHIPS g)\<rparr>)"

definition get_expansions :: "globals \<Rightarrow> string \<Rightarrow> string list" where
  "get_expansions g component =
     (case map_of (EXPANSIONS g) component of None \<Rightarrow> [component] | Some xs \<Rightarrow> xs)"

subsection \<open>Metadata store\<close>

text \<open>The loop of \<open>set_node_metadata\<close> over \<^verbatim>\<open>zip(nodes, metadata_list)\<close>. The guard is the
  source's \<^verbatim>\<open>if metadata in data\<close>: it looks the metadata value up among the keys of the
  node's dictionary.\<close>

fun set_node_metadata_loop ::
  "globals \<Rightarrow> string \<Rightarrow> (string \<times> cell) list \<Rightarrow> error option \<times> globals" where
  "set_node_metadata_loop g tag [] = (None, g)"
| "set_node_metadata_loop g tag ((node, metadata) # rest) =
     (let data = (case map_of (NODE_METADATA g) node of None \<Rightarrow> [] | Some d \<Rightarrow> d)
      in if (case metadata of None \<Rightarrow> False | Some m \<Rightarrow> m \<in> set (map fst data))
         then (Some (MetadataAlreadySet node), g)
         else set_node_metadata_loop
                (g\<lparr>NODE_METADATA :=
                     AList.update node (AList.update tag metadata data) (NODE_METADATA g)\<rparr>)
                tag rest)"

definition set_node_metadata ::
  "globals \<Rightarrow> string list \<Rightarrow> string \<Rightarrow> cell list \<Rightarrow> error option \<times> globals" where
  "set_node_metadata g nodes tag metadata_list =
     (if length nodes \<noteq> length metadata_list then (Some LengthMismatch, g)
      else set_node_metadata_loop g tag (zip nodes metadata_list))"

definition get_node_metadata :: "globals \<Rightarrow> string \<Rightarrow> pydict option" where
  "get_node_metadata g node = map_of (NODE_METADATA g) node"

definition drop_component :: "globals \<Rightarrow> string \<Rightarrow> bool" where
  "drop_component g item = (item \<in> set (DROP_COMPONENTS g))"

subsection \<open>Type registry\<close>

text \<open>The dictionary comprehension \<^verbatim>\<open>{col: row[col] for col in metadata_cols}\<close>; a missing
  or empty column list gives the empty dictionary.\<close>

fun row_metadata :: "dataframe \<Rightarrow> cell list \<Rightarrow> string list \<Rightarrow> pydict \<Rightarrow> error + pydict" where
  "row_metadata df r [] acc = Inr acc"
| "row_metadata df r (col # cols) acc =
     (case row_get df r col of
        Inl e \<Rightarrow> Inl e
      | Inr v \<Rightarrow> row_metadata df r cols (AList.update col v acc))"

text \<open>One pass of the loop of \<open>register_nodes\<close>: the row's key and metadata are read, a
  name that is already a key of \<open>TYPES_MAP\<close> raises, otherwise the metadata (when not
  empty) and the type are stored.\<close>

definition register_row ::
  "globals \<Rightarrow> dataframe \<Rightarrow> string \<Rightarrow> string \<Rightarrow> string list option \<Rightarrow> cell list
    \<Rightarrow> error option \<times> globals" where
  "register_row g df key_col component_type metadata_cols r =
     (case row_name df r key_col of
        Inl e \<Rightarrow> (Some e, g)
      | Inr component \<Rightarrow>
         (case row_metadata df r (case metadata_cols of None \<Rightarrow> [] | Some cs \<Rightarrow> cs) [] of
            Inl e \<Rightarrow> (Some e, g)
          | Inr metadata \<Rightarrow>
             (case map_of (TYPES_MAP g) component of
                Some registered \<Rightarrow>
                  (Some (AlreadyRegistered component component_type registered), g)
              | None \<Rightarrow>
                  (None,
                   g\<lparr>NODE_METADATA :=
                        (if metadata \<noteq> [] then AList.update component metadata (NODE_METADATA g)
                         else NODE_METADATA g),
                     TYPES_MAP := AList.update component component_type (TYPES_MAP g)\<rparr>))))"

fun register_rows ::
  "globals \<Rightarrow> dataframe \<Rightarrow> string \<Rightarrow> string \<Rightarrow> string list option \<Rightarrow> cell list list
    \<Rightarrow> error option \<times> globals" where
  "register_rows g df key_col component_type metadata_cols [] = (None, g)"
| "register_rows g df key_col component_type metadata_cols (r # rs) =
     (case register_row g df key_col component_type metadata_cols r of
        (Some e, g') \<Rightarrow> (Some e, g')
      | (None, g') \<Rightarrow> register_rows g' df key_col component_type metadata_cols rs)"

definition register_nodes ::
  "globals \<Rightarrow> dataframe \<Rightarrow> string \<Rightarrow> string \<Rightarrow> string list option
    \<Rightarrow> error option \<times> globals" where
  "register_nodes g df key_col component_type metadata_cols =
     register_rows g df key_col component_type metadata_cols (rows df)"

definition get_registered_nodes :: "globals \<Rightarrow> string list" where
  "get_registered_nodes g = map fst (TYPES_MAP g)"

text \<open>\<^verbatim>\<open>if not real_name\<close> holds for a missing key and for an empty string.\<close>

definition resolve_name_map :: "globals \<Rightarrow> string \<Rightarrow> string" where
  "resolve_name_map g name =
     (case map_of (NAMES_MAP g) name of
        None \<Rightarrow> name
      | Some real_name \<Rightarrow> if real_name = [] then name else real_name)"

definition resolve_name_to_type :: "globals \<Rightarrow> string \<Rightarrow> error + string" where
  "resolve_name_to_type g name =
     (case map_of (TYPES_MAP g) name of
        None \<Rightarrow> Inl (NotFound name)
      | Some component_type \<Rightarrow>
          if component_type = [] then Inl (NotFound name) else Inr component_type)"

section \<open>database.py\<close>

text \<open>The graph database is the list of the writes it has received, oldest first:
  \<open>InsertRow\<close> is one \<^verbatim>\<open>CREATE\<close> of a node with its label and properties,
  \<open>CreateRelationship\<close> one \<^verbatim>\<open>MATCH ... CREATE\<close> of an edge with the arguments of
  \<open>create_relationship\<close>.\<close>

record relationship =
  node1_type :: string
  node1_id_name :: string
  node1_id :: string
  node2_type :: string
  node2_id_name :: string
  node2_id :: string
  relationship_type :: string
  relationship_metadata :: "(string \<times> bool) list"

datatype db_write = InsertRow string pydict | CreateRelationship relationship

type_synonym database = "db_write list"

definition drop_all_data :: "database \<Rightarrow> database" where
  "drop_all_data db = []"

definition insert_row :: "database \<Rightarrow> string \<Rightarrow> pydict \<Rightarrow> error option \<times> database" where
  "insert_row db component_name row =
     (case find (\<lambda>key. CHR ''-'' \<in> set key) (map fst row) of
        Some key \<Rightarrow> (Some (HyphenKey key), db)
      | None \<Rightarrow> (None, db @ [InsertRow component_name row]))"

definition create_relationship ::
  "database \<Rightarrow> string \<Rightarrow> string \<Rightarrow> string \<Rightarrow> string \<Rightarrow> string \<Rightarrow> string \<Rightarrow> string
    \<Rightarrow> (string \<times> bool) list \<Rightarrow> database" where
  "create_relationship db n1_type n1_id_name n1_id n2_type n2_id_name n2_id rel_type md =
     db @ [CreateRelationship
             \<lparr> node1_type = n1_type, node1_id_name = n1_id_name, node1_id = n1_id,
               node2_type = n2_type, node2_id_name = n2_id_name, node2_id = n2_id,
               relationship_type = rel_type, relationship_metadata = md \<rparr>]"

section \<open>import\_data.py\<close>

text \<open>The tables the parsers hand to the script.\<close>

record sources =
  components_df :: dataframe
  interfaces_df :: dataframe
  software_df :: dataframe
  cves_df :: dataframe
  cwes_df :: dataframe
  threats_df :: dataframe
  df_attacks :: dataframe
  df_our_attacks :: dataframe
  df_defenses :: dataframe
  df_preventative :: dataframe
  government_df :: dataframe

text \<open>Sequencing of statements that may raise: the next one runs only when the previous
  one returned.\<close>

definition and_then ::
  "error option \<times> globals \<Rightarrow> (globals \<Rightarrow> error option \<times> globals) \<Rightarrow> error option \<times> globals" where
  "and_then r f = (case r of (Some e, g) \<Rightarrow> (Some e, g) | (None, g) \<Rightarrow> f g)"

text \<open>Stage 1: the eleven calls of \<open>register_nodes\<close>, in the script's order.\<close>

definition register_all :: "sources \<Rightarrow> globals \<Rightarrow> error option \<times> globals" where
  "register_all src g0 =
     and_then (and_then (and_then (and_then (and_then (and_then (and_then (and_then (and_then
     (and_then
       (register_nodes g0 (components_df src) ''Component'' ''Component'' None)
       (\<lambda>g. register_nodes g (interfaces_df src) ''Interface'' ''Interface'' None))
       (\<lambda>g. register_nodes g (software_df src) ''Project'' ''Software''
               (Some [''Description'', ''Sponsor'', ''Publisher''])))
       (\<lambda>g. register_nodes g (cves_df src) ''CVE ID'' ''CVE''
               (Some [''Description'', ''Date Published'', ''URL'', ''CVSS (V3.1)'', ''CWEs'',
                      ''Public'', ''Reference'', ''Attribution''])))
       (\<lambda>g. register_nodes g (cwes_df src) ''CWE ID'' ''CWE'' (Some [''Description''])))
       (\<lambda>g. register_nodes g (threats_df src) ''Risk ID'' ''Threat''
               (Some (tl (columns (threats_df src))))))
       (\<lambda>g. register_nodes g (df_attacks src) ''Name'' ''Attack'' (Some [''Reference''])))
       (\<lambda>g. register_nodes g (df_our_attacks src) ''Name'' ''OurAttack'' (Some [''Reference''])))
       (\<lambda>g. register_nodes g (df_defenses src) ''Name'' ''Defense'' (Some [''Reference''])))
       (\<lambda>g. register_nodes g (df_preventative src) ''Name'' ''PreventiveMeasure''
               (Some [''Reference''])))
       (\<lambda>g. register_nodes g (government_df src) ''Name'' ''GovernmentThreat''
               (Some [''Description'', ''Ecosystem'', ''Source'', ''Spec. Issue'']))"

text \<open>\<^verbatim>\<open>list(df[col])\<close> for a key column, whose cells are names.\<close>

definition df_names :: "dataframe \<Rightarrow> string \<Rightarrow> error + string list" where
  "df_names df col = (if col \<in> set (columns df)
                      then collect (map (\<lambda>r. row_name df r col) (rows df))
                      else Inl (KeyError col))"

fun concat_results :: "(error + 'a list) list \<Rightarrow> error + 'a list" where
  "concat_results [] = Inr []"
| "concat_results (Inl e # _) = Inl e"
| "concat_results (Inr xs # rest) =
     (case concat_results rest of Inl e \<Rightarrow> Inl e | Inr ys \<Rightarrow> Inr (xs @ ys))"

definition all_relationships ::
  "sources \<Rightarrow> string list \<Rightarrow> string list \<Rightarrow> error + relationship_tuple list" where
  "all_relationships src all_components all_interfaces = concat_results [
     expand_relationship (interfaces_df src) ''Interface'' ''Connects'' ''CONNECTS'' None False,
     expand_relationship (software_df src) ''Project'' ''Components'' ''IMPLEMENTS'' None False,
     expand_relationship (cves_df src) ''CVE ID'' ''Software'' ''AFFECTS'' None False,
     expand_relationship (cves_df src) ''CVE ID'' ''CWEs'' ''ASSOCIATED_WITH'' None False,
     expand_relationship (threats_df src) ''Risk ID'' ''Affected Components'' ''TARGETS''
       (Some all_components) False,
     expand_relationship (threats_df src) ''Risk ID'' ''Extra Interfaces'' ''TARGETS'' None False,
     expand_relationship (df_attacks src) ''Name'' ''Target Components / Interfaces'' ''TARGETS''
       (Some all_components) False,
     expand_relationship (df_our_attacks src) ''Name'' ''Target Components / Interfaces''
       ''TARGETS'' (Some all_components) False,
     expand_relationship (df_defenses src) ''Name'' ''Target Components / Interfaces'' ''SECURES''
       (Some all_components) False,
     expand_relationship (df_preventative src) ''Name'' ''Target Components / Interfaces''
       ''SECURES'' (Some all_components) False,
     expand_relationship (government_df src) ''Name'' ''Components'' ''TARGETS''
       (Some all_components) False,
     expand_relationship (government_df src) ''Name'' ''Interfaces'' ''TARGETS''
       (Some all_interfaces) False]"

text \<open>The check \<^verbatim>\<open>len(all_nodes) != len(set(all_nodes))\<close>.\<close>

definition check_duplicates :: "string list \<Rightarrow> error option" where
  "check_duplicates all_nodes =
     (if length all_nodes \<noteq> card (set all_nodes) then Some DuplicateNodes else None)"

text \<open>The node loop. The written row is \<^verbatim>\<open>{"name": node}\<close> updated with the node's
  metadata under cleaned-up keys.\<close>

definition node_row :: "globals \<Rightarrow> string \<Rightarrow> pydict" where
  "node_row g node =
     (let node_metadata = (case get_node_metadata g node of
                             None \<Rightarrow> []
                           | Some md \<Rightarrow> if md = [] then [] else cleanup_key_names md)
      in fold (\<lambda>(k, v) row. AList.update k v row) node_metadata [(''name'', Some node)])"

fun create_nodes :: "globals \<Rightarrow> database \<Rightarrow> string list \<Rightarrow> error option \<times> database" where
  "create_nodes g db [] = (None, db)"
| "create_nodes g db (node # nodes) =
     (case resolve_name_to_type g node of
        Inl e \<Rightarrow> (Some e, db)
      | Inr node_type \<Rightarrow>
         (case insert_row db node_type (node_row g node) of
            (Some e, db') \<Rightarrow> (Some e, db')
          | (None, db') \<Rightarrow> create_nodes g db' nodes))"

text \<open>The inner loop of the edge phase over the destinations of one row, with the list
  \<open>mapped_nodes\<close> of the names already handled. Each pass that reaches the end of the
  body records the adjacency and writes one edge.\<close>

fun map_relationships ::
  "globals \<Rightarrow> database \<Rightarrow> string \<Rightarrow> string \<Rightarrow> string \<Rightarrow> bool \<Rightarrow> (string \<times> bool) list
    \<Rightarrow> string list \<Rightarrow> string list \<Rightarrow> error option \<times> globals \<times> database" where
  "map_relationships g db node node_type relationship_name reverse md mapped_nodes [] =
     (None, g, db)"
| "map_relationships g db node node_type relationship_name reverse md mapped_nodes
     (raw_destination # relationships) =
     (if drop_component g raw_destination
      then map_relationships g db node node_type relationship_name reverse md mapped_nodes
             relationships
      else
        let destination_node = resolve_name_map g raw_destination in
        if destination_node \<in> set mapped_nodes
        then map_relationships g db node node_type relationship_name reverse md mapped_nodes
               relationships
        else
          (case resolve_name_to_type g destination_node of
             Inl e \<Rightarrow> (Some e, g, db)
           | Inr destination_node_type \<Rightarrow>
               let (src_node, src_node_type, dest_node, dest_node_type) =
                     (if reverse
                      then (destination_node, destination_node_type, node, node_type)
                      else (node, node_type, destination_node, destination_node_type));
                   g' = record_relationship g src_node_type dest_node_type relationship_name;
                   db' = create_relationship db src_node_type ''name'' src_node
                           dest_node_type ''name'' dest_node relationship_name md
               in map_relationships g' db' node node_type relationship_name reverse md
                    (mapped_nodes @ [destination_node]) relationships))"

text \<open>The test for the wildcard: exactly one token, equal to \<^verbatim>\<open>"all"\<close> in lower case.\<close>

definition is_all :: "string list \<Rightarrow> bool" where
  "is_all relationships = (case relationships of [r] \<Rightarrow> lower r = ''all'' | _ \<Rightarrow> False)"

text \<open>One pass of the outer loop of the edge phase, on one tuple of \<open>all_relationships\<close>.
  A source cell that is NaN is no key of the registries, so its lookup raises.\<close>

definition create_row_relationships ::
  "globals \<Rightarrow> database \<Rightarrow> relationship_tuple \<Rightarrow> error option \<times> globals \<times> database" where
  "create_row_relationships g db t =
     (case t of (source, relationships, relationship_name, expansion, reverse) \<Rightarrow>
       (case (case source of
                None \<Rightarrow> Inl (NotFound ''nan'')
              | Some n \<Rightarrow> (case resolve_name_to_type g (resolve_name_map g n) of
                            Inl e \<Rightarrow> Inl e
                          | Inr ty \<Rightarrow> Inr (resolve_name_map g n, ty))) of
          Inl e \<Rightarrow> (Some e, g, db)
        | Inr (node, node_type) \<Rightarrow>
           (case relationships of
              None \<Rightarrow> (None, g, db)
            | Some text \<Rightarrow>
               let tokens = map strip (split_comma_space text);
                   wildcard = is_all tokens
               in (case (if wildcard then expansion else Some tokens) of
                     None \<Rightarrow> (Some NotIterable, g, db)
                   | Some names \<Rightarrow>
                       map_relationships g db node node_type relationship_name reverse
                         [(''all'', wildcard)] []
                         (concat (map (get_expansions g) names))))))"

fun create_relationships ::
  "globals \<Rightarrow> database \<Rightarrow> relationship_tuple list \<Rightarrow> error option \<times> globals \<times> database" where
  "create_relationships g db [] = (None, g, db)"
| "create_relationships g db (t # ts) =
     (case create_row_relationships g db t of
        (Some e, g', db') \<Rightarrow> (Some e, g', db')
      | (None, g', db') \<Rightarrow> create_relationships g' db' ts)"

text \<open>The script: drop the database, register all nodes, build the relationship tuples,
  check for duplicates, write the nodes, write the edges. \<open>DRY_RUN\<close> is \<^verbatim>\<open>False\<close> and
  \<open>QUERIES\<close> is empty in the script as shipped.\<close>

definition import_data :: "sources \<Rightarrow> database \<Rightarrow> error option \<times> globals \<times> database" where
  "import_data src db0 =
     (let db = drop_all_data db0 in
      case register_all src initial_globals of
        (Some e, g) \<Rightarrow> (Some e, g, db)
      | (None, g) \<Rightarrow>
         let all_nodes = get_registered_nodes g in
         (case df_names (components_df src) ''Component'' of
            Inl e \<Rightarrow> (Some e, g, db)
          | Inr all_components \<Rightarrow>
           (case df_names (interfaces_df src) ''Interface'' of
              Inl e \<Rightarrow> (Some e, g, db)
            | Inr all_interfaces \<Rightarrow>
             (case all_relationships src all_components all_interfaces of
                Inl e \<Rightarrow> (Some e, g, db)
              | Inr relationships \<Rightarrow>
               (case check_duplicates all_nodes of
                  Some e \<Rightarrow> (Some e, g, db)
                | None \<Rightarrow>
                 (case create_nodes g db all_nodes of
                    (Some e, db') \<Rightarrow> (Some e, g, db')
                  | (None, db') \<Rightarrow> create_relationships g db' relationships))))))"

section \<open>oran\_pipeline.py\<close>

text \<open>The master file is modelled by what the \<^verbatim>\<open>csv\<close> module reads from it: it is absent,
  or reading it raises, or its first record can be read and reading on raises, or it is
  a list of records, each a list of fields (a blank line is the empty record). Writing a
  record and reading it back gives the record. A row dictionary has string values under
  string keys; \<open>restkey\<close> says that it also has the key \<^verbatim>\<open>None\<close>, under which
  \<^verbatim>\<open>csv.DictReader\<close> puts the fields a record has beyond the field names.\<close>

datatype master_file = Absent | Unreadable | Truncated "string list" | Readable "string list list"




text \<open>The first loop of \<open>_union_headers\<close>; the set \<open>seen\<close> of the source holds the elements
  of \<open>out\<close> throughout.\<close>

fun union_loop :: "string list \<Rightarrow> string list \<Rightarrow> string list" where
  "union_loop out [] = out"
| "union_loop out (h # incoming) =
     (if h \<in> set out then union_loop out incoming else union_loop (out @ [h]) incoming)"












section \<open>The specification's edge materialization\<close>

text \<open>Steps 4 and 5 of the specification's algorithm as list functions, to compare the
  loops of the script with: the destinations of a row are its names after umbrella
  expansion, without the names on the drop list, resolved through the alias table, each
  kept where it is first seen. \<open>is_registered\<close> says that the type lookup of a name returns,
  \<open>type_of_name\<close> is what it returns, \<open>spec_edge\<close> is the edge written for a destination,
  and \<open>far_end\<close> reads the destination back from a written edge.\<close>

definition first_seen :: "'a list \<Rightarrow> 'a list" where
  "first_seen xs = rev (remdups (rev xs))"

definition spec_destinations :: "globals \<Rightarrow> string list \<Rightarrow> string list" where
  "spec_destinations g names =
     first_seen (map (resolve_name_map g)
                   (filter (\<lambda>d. \<not> drop_component g d) (concat (map (get_expansions g) names))))"

definition is_registered :: "globals \<Rightarrow> string \<Rightarrow> bool" where
  "is_registered g name = (case resolve_name_to_type g name of Inl _ \<Rightarrow> False | Inr _ \<Rightarrow> True)"

definition type_of_name :: "globals \<Rightarrow> string \<Rightarrow> string" where
  "type_of_name g name = (case resolve_name_to_type g name of Inl _ \<Rightarrow> [] | Inr ty \<Rightarrow> ty)"

definition spec_edge ::
  "globals \<Rightarrow> string \<Rightarrow> string \<Rightarrow> string \<Rightarrow> bool \<Rightarrow> (string \<times> bool) list \<Rightarrow> string \<Rightarrow> db_write" where
  "spec_edge g node node_type relationship_name reverse md d =
     CreateRelationship
       (if reverse
        then \<lparr> node1_type = type_of_name g d, node1_id_name = ''name'', node1_id = d,
               node2_type = node_type, node2_id_name = ''name'', node2_id = node,
               relationship_type = relationship_name, relationship_metadata = md \<rparr>
        else \<lparr> node1_type = node_type, node1_id_name = ''name'', node1_id = node,
               node2_type = type_of_name g d, node2_id_name = ''name'', node2_id = d,
               relationship_type = relationship_name, relationship_metadata = md \<rparr>)"

fun far_end :: "bool \<Rightarrow> db_write \<Rightarrow> string" where
  "far_end reverse (CreateRelationship r) = (if reverse then node1_id r else node2_id r)"
| "far_end reverse (InsertRow label row) = []"

section \<open>Example inputs\<close>

text \<open>Registries after two registrations, and a component table that names one of the
  registered components again.\<close>

definition example_globals :: globals where
  "example_globals = initial_globals\<lparr>
     TYPES_MAP := [(''SMO'', ''Component''), (''O1 Interface'', ''Interface'')],
     NODE_METADATA := [(''SMO'', [(''Description'', Some ''orchestrator'')])]\<rparr>"

definition example_df :: dataframe where
  "example_df = \<lparr> columns = [''Component'', ''Description''],
                   rows = [[Some ''Near-RT RIC'', None], [Some ''SMO'', Some ''again'']] \<rparr>"

text \<open>Source tables in which only the threat table has a row, and one of its columns has
  a hyphen in its name; and registries in which the node \<open>n\<close> already has metadata under
  the key \<open>k\<close>.\<close>

definition hyphen_sources :: sources where
  "hyphen_sources =
     (let empty = \<lparr> columns = [], rows = [] \<rparr> in
      \<lparr> components_df = \<lparr> columns = [''Component''], rows = [] \<rparr>,
        interfaces_df = \<lparr> columns = [''Interface'', ''Connects''], rows = [] \<rparr>,
        software_df = empty, cves_df = empty, cwes_df = empty,
        threats_df = \<lparr> columns = [''Risk ID'', ''Risk-Level'', ''Affected Components'',
                                   ''Extra Interfaces''],
                       rows = [[Some ''T-01'', Some ''High'', None, None]] \<rparr>,
        df_attacks = empty, df_our_attacks = empty, df_defenses = empty,
        df_preventative = empty, government_df = empty \<rparr>)"

definition metadata_globals :: globals where
  "metadata_globals = initial_globals\<lparr>NODE_METADATA := [(''n'', [(''k'', Some ''v1'')])]\<rparr>"

text \<open>Registries with two components and an interface under the shipped alias table; and
  source tables whose only row is an interface that is named by an alias and connects to
  nothing.\<close>

definition edge_globals :: globals where
  "edge_globals = initial_globals\<lparr>
     TYPES_MAP := [(''SMO'', ''Component''), (''Non-RT RIC'', ''Component''),
                   (''O1 Interface'', ''Interface'')]\<rparr>"

definition alias_sources :: sources where
  "alias_sources =
     (let empty = \<lparr> columns = [], rows = [] \<rparr> in
      \<lparr> components_df = \<lparr> columns = [''Component''], rows = [] \<rparr>,
        interfaces_df = \<lparr> columns = [''Interface'', ''Connects''], rows = [[Some ''E2'', None]] \<rparr>,
        software_df = empty, cves_df = empty, cwes_df = empty, threats_df = empty,
        df_attacks = empty, df_our_attacks = empty, df_defenses = empty,
        df_preventative = empty, government_df = empty \<rparr>)"



section \<open>Name resolver\<close>

lemma shipped_values_canonical:
  "list_all (\<lambda>(raw, canonical). canonical \<noteq> [] \<and> map_of shipped_NAMES_MAP canonical = None)
     shipped_NAMES_MAP"
  by code_simp

lemma shipped_value_not_alias:
  assumes "map_of shipped_NAMES_MAP raw = Some c"
  shows "c \<noteq> [] \<and> map_of shipped_NAMES_MAP c = None"
proof -
  from assms have "(raw, c) \<in> set shipped_NAMES_MAP" by (rule map_of_SomeD)
  with shipped_values_canonical show ?thesis
    unfolding list_all_iff by blast
qed

text \<open>
  C8. With the alias table that \<^verbatim>\<open>mapping.py\<close> ships, whatever the other registries hold,
  \<open>resolve_name_map\<close> returns the table's canonical string for a raw name that is a key
  of the table and the raw name itself otherwise, and resolving twice is resolving once.
\<close>

theorem resolve_name_map_shipped:
  "resolve_name_map (g\<lparr>NAMES_MAP := shipped_NAMES_MAP\<rparr>) raw =
     (case map_of shipped_NAMES_MAP raw of None \<Rightarrow> raw | Some canonical \<Rightarrow> canonical)
   \<and> resolve_name_map (g\<lparr>NAMES_MAP := shipped_NAMES_MAP\<rparr>)
        (resolve_name_map (g\<lparr>NAMES_MAP := shipped_NAMES_MAP\<rparr>) raw) =
      resolve_name_map (g\<lparr>NAMES_MAP := shipped_NAMES_MAP\<rparr>) raw"
proof (cases "map_of shipped_NAMES_MAP raw")
  case None
  then show ?thesis by (simp add: resolve_name_map_def)
next
  case (Some c)
  then have "c \<noteq> [] \<and> map_of shipped_NAMES_MAP c = None" by (rule shipped_value_not_alias)
  then show ?thesis using Some by (simp add: resolve_name_map_def)
qed

section \<open>Type registry\<close>

lemma types_register_row:
  assumes "map_of (TYPES_MAP g) name = Some registered"
  shows "map_of (TYPES_MAP (snd (register_row g df key_col ty mcols r))) name = Some registered"
  using assms
  by (auto simp: register_row_def update_conv' split: sum.splits option.splits)

lemma types_register_rows:
  assumes "map_of (TYPES_MAP g) name = Some registered"
  shows "map_of (TYPES_MAP (snd (register_rows g df key_col ty mcols rs))) name = Some registered"
  using assms
proof (induction rs arbitrary: g)
  case Nil
  then show ?case by simp
next
  case (Cons r rs)
  obtain e g' where step: "register_row g df key_col ty mcols r = (e, g')"
    by (cases "register_row g df key_col ty mcols r")
  have "map_of (TYPES_MAP g') name = Some registered"
    using types_register_row [OF Cons.prems, of df key_col ty mcols r] step by simp
  then show ?case using Cons.IH [of g'] step by (cases e) simp_all
qed

lemma register_row_registered:
  assumes "map_of (TYPES_MAP g) name = Some registered"
    and "row_name df r key_col = Inr name"
  shows "register_row g df key_col ty mcols r =
           ((case row_metadata df r (case mcols of None \<Rightarrow> [] | Some cs \<Rightarrow> cs) [] of
               Inl e \<Rightarrow> Some e
             | Inr md \<Rightarrow> Some (AlreadyRegistered name ty registered)), g)"
  using assms by (simp add: register_row_def split: sum.splits)

lemma register_row_fails:
  assumes "map_of (TYPES_MAP g) name = Some registered"
    and "row_name df r key_col = Inr name"
  shows "fst (register_row g df key_col ty mcols r) \<noteq> None"
  using register_row_registered [OF assms, of ty mcols]
  by (simp split: sum.splits)

lemma register_rows_fail:
  assumes "map_of (TYPES_MAP g) name = Some registered"
    and "r \<in> set rs" and "row_name df r key_col = Inr name"
  shows "fst (register_rows g df key_col ty mcols rs) \<noteq> None"
  using assms
proof (induction rs arbitrary: g)
  case Nil
  then show ?case by simp
next
  case (Cons r' rs)
  obtain e g' where step: "register_row g df key_col ty mcols r' = (e, g')"
    by (cases "register_row g df key_col ty mcols r'")
  show ?case
  proof (cases e)
    case (Some err)
    then show ?thesis using step by simp
  next
    case None
    have g': "map_of (TYPES_MAP g') name = Some registered"
      using types_register_row [OF Cons.prems(1), of df key_col ty mcols r'] step by simp
    have "r' \<noteq> r"
      using register_row_fails [OF Cons.prems(1), of df r' key_col ty mcols] Cons.prems(3) step None
      by auto
    then have "r \<in> set rs" using Cons.prems(2) by simp
    then show ?thesis using Cons.IH [OF g' _ Cons.prems(3)] step None by simp
  qed
qed

lemma resolve_name_to_type_cong:
  "map_of (TYPES_MAP g') name = map_of (TYPES_MAP g) name \<Longrightarrow>
   resolve_name_to_type g' name = resolve_name_to_type g name"
  by (simp add: resolve_name_to_type_def)

text \<open>
  C2. A name that is a key of \<open>TYPES_MAP\<close> cannot be registered again: the pass of
  \<open>register_nodes\<close> over a row with that name raises and leaves every registry as it was,
  whatever type and metadata columns are supplied (the error is \<open>AlreadyRegistered\<close>, the
  specification's DuplicateEntityError, unless reading a metadata column of the row raises
  first); a table holding such a row makes \<open>register_nodes\<close> raise; and whether it raises
  or not, the name keeps its type, so \<open>resolve_name_to_type\<close> answers for it after the call
  what it answered before.
\<close>

theorem register_once_only:
  assumes "map_of (TYPES_MAP g) name = Some registered"
  shows "(row_name df r key_col = Inr name \<longrightarrow>
            register_row g df key_col ty mcols r =
              ((case row_metadata df r (case mcols of None \<Rightarrow> [] | Some cs \<Rightarrow> cs) [] of
                  Inl e \<Rightarrow> Some e
                | Inr md \<Rightarrow> Some (AlreadyRegistered name ty registered)), g))
       \<and> (r \<in> set (rows df) \<and> row_name df r key_col = Inr name \<longrightarrow>
            fst (register_nodes g df key_col ty mcols) \<noteq> None)
       \<and> map_of (TYPES_MAP (snd (register_nodes g df key_col ty mcols))) name = Some registered
       \<and> resolve_name_to_type (snd (register_nodes g df key_col ty mcols)) name =
           resolve_name_to_type g name"
proof -
  have kept: "map_of (TYPES_MAP (snd (register_nodes g df key_col ty mcols))) name = Some registered"
    unfolding register_nodes_def using assms by (rule types_register_rows)
  have one: "row_name df r key_col = Inr name \<longrightarrow>
            register_row g df key_col ty mcols r =
              ((case row_metadata df r (case mcols of None \<Rightarrow> [] | Some cs \<Rightarrow> cs) [] of
                  Inl e \<Rightarrow> Some e
                | Inr md \<Rightarrow> Some (AlreadyRegistered name ty registered)), g)"
    using register_row_registered [OF assms] by blast
  have batch: "r \<in> set (rows df) \<and> row_name df r key_col = Inr name \<longrightarrow>
            fst (register_nodes g df key_col ty mcols) \<noteq> None"
    unfolding register_nodes_def using register_rows_fail [OF assms] by blast
  have same: "resolve_name_to_type (snd (register_nodes g df key_col ty mcols)) name =
           resolve_name_to_type g name"
    using kept assms by (simp add: resolve_name_to_type_cong)
  from one batch kept same show ?thesis by blast
qed

theorem register_once_only_witness:
  "map_of (TYPES_MAP example_globals) ''SMO'' = Some ''Component''
   \<and> register_row example_globals example_df ''Component'' ''Interface'' (Some [''Description''])
        [Some ''SMO'', Some ''again''] =
      (Some (AlreadyRegistered ''SMO'' ''Interface'' ''Component''), example_globals)
   \<and> fst (register_nodes example_globals example_df ''Component'' ''Interface''
        (Some [''Description''])) \<noteq> None
   \<and> resolve_name_to_type
        (snd (register_nodes example_globals example_df ''Component'' ''Interface''
           (Some [''Description'']))) ''SMO'' = Inr ''Component''"
proof -
  have h: "map_of (TYPES_MAP example_globals) ''SMO'' = Some ''Component''"
    by (simp add: example_globals_def)
  have r: "row_name example_df [Some ''SMO'', Some ''again''] ''Component'' = Inr ''SMO''"
    by (simp add: row_name_def row_get_def example_df_def)
  have m: "row_metadata example_df [Some ''SMO'', Some ''again''] [''Description''] [] =
             Inr [(''Description'', Some ''again'')]"
    by (simp add: row_get_def example_df_def)
  have i: "[Some ''SMO'', Some ''again''] \<in> set (rows example_df)"
    by (simp add: example_df_def)
  have t: "resolve_name_to_type example_globals ''SMO'' = Inr ''Component''"
    by (simp add: resolve_name_to_type_def example_globals_def)
  show ?thesis
    using register_once_only [OF h, of example_df "[Some ''SMO'', Some ''again'']" "''Component''"
        "''Interface''" "Some [''Description'']"] h r m i t
    by simp
qed

section \<open>Attribute keys\<close>

lemma set_replace:
  "set (replace old new s) = (set s - {old}) \<union> (if old \<in> set s then set new else {})"
  by (induction s) (auto simp: replace_def)

lemma lower_char_not_upper: "lower_char c \<notin> set ascii_uppercase"
  by (simp add: lower_char_def ascii_uppercase_def ascii_lowercase_def)

lemma lower_char_hyphen: "lower_char c = CHR ''-'' \<longleftrightarrow> c = CHR ''-''"
  by (simp add: lower_char_def ascii_uppercase_def ascii_lowercase_def)

lemma set_lower: "set (lower s) = lower_char ` set s"
  by (simp add: lower_def)

lemma hyphen_lower: "CHR ''-'' \<in> set (lower s) \<longleftrightarrow> CHR ''-'' \<in> set s"
proof
  assume "CHR ''-'' \<in> set (lower s)"
  then obtain x where "x \<in> set s" and "lower_char x = CHR ''-''"
    by (auto simp: set_lower)
  then show "CHR ''-'' \<in> set s" by (simp add: lower_char_hyphen)
next
  assume "CHR ''-'' \<in> set s"
  then have "lower_char (CHR ''-'') \<in> set (lower s)" by (simp add: set_lower)
  moreover have "lower_char (CHR ''-'') = CHR ''-''" by (simp add: lower_char_hyphen)
  ultimately show "CHR ''-'' \<in> set (lower s)" by simp
qed

lemma cleanup_string_hyphen_iff:
  "CHR ''-'' \<in> set (cleanup_string s) \<longleftrightarrow> CHR ''-'' \<in> set s"
  by (simp add: cleanup_string_def set_replace hyphen_lower)

lemma cleanup_string_removed:
  "set (cleanup_string s) \<inter> set '' :/().'' = {}"
  by (auto simp: cleanup_string_def set_replace split: if_splits)

lemma cleanup_string_no_upper:
  "set (cleanup_string s) \<inter> set ascii_uppercase = {}"
proof -
  have "set (cleanup_string s) \<subseteq> set (lower s) \<union> {CHR ''_''}"
    by (auto simp: cleanup_string_def set_replace split: if_splits)
  moreover have "set (lower s) \<inter> set ascii_uppercase = {}"
    using lower_char_not_upper by (auto simp: set_lower)
  moreover have "CHR ''_'' \<notin> set ascii_uppercase" by (simp add: ascii_uppercase_def)
  ultimately show ?thesis by blast
qed

lemma insert_row_rejects_iff:
  "fst (insert_row db ty row) = None \<longleftrightarrow> \<not> (\<exists>key \<in> set (map fst row). CHR ''-'' \<in> set key)"
proof (cases "find (\<lambda>key. CHR ''-'' \<in> set key) (map fst row)")
  case None
  then have "\<not> (\<exists>key \<in> set (map fst row). CHR ''-'' \<in> set key)"
    by (simp only: find_None_iff) blast
  then show ?thesis using None by (simp add: insert_row_def)
next
  case (Some key)
  then have "key \<in> set (map fst row) \<and> CHR ''-'' \<in> set key"
    by (auto simp: find_Some_iff)
  then show ?thesis using Some by (auto simp: insert_row_def)
qed

lemma keys_fold_update:
  "fst ` set (fold (\<lambda>(k, v) acc. AList.update (f k) v acc) d acc0) =
     f ` fst ` set d \<union> fst ` set acc0"
proof (induction d arbitrary: acc0)
  case Nil
  then show ?case by simp
next
  case (Cons p d)
  obtain a b where p: "p = (a, b)" by (cases p)
  have "fst ` set (fold (\<lambda>(k, v) acc. AList.update (f k) v acc) (p # d) acc0) =
        f ` fst ` set d \<union> fst ` set (AList.update (f a) b acc0)"
    using Cons.IH [of "AList.update (f a) b acc0"] by (simp add: p)
  also have "\<dots> = f ` fst ` set d \<union> ({f a} \<union> fst ` set acc0)"
    by (simp only: dom_update)
  also have "\<dots> = f ` fst ` set (p # d) \<union> fst ` set acc0"
    by (simp add: p)
  finally show ?case .
qed

lemma keys_cleanup_key_names:
  "fst ` set (cleanup_key_names d) = cleanup_string ` fst ` set d"
  by (simp add: cleanup_key_names_def keys_fold_update)

lemma keys_fold_update_id:
  "fst ` set (fold (\<lambda>(k, v) row. AList.update k v row) d acc0) = fst ` set d \<union> fst ` set acc0"
  using keys_fold_update [of "\<lambda>k. k" d acc0] by simp

lemma keys_node_row:
  "fst ` set (node_row g node) =
     insert ''name''
       (cleanup_string ` fst ` set (case get_node_metadata g node of None \<Rightarrow> [] | Some md \<Rightarrow> md))"
proof (cases "get_node_metadata g node")
  case None
  then show ?thesis by (simp add: node_row_def)
next
  case (Some md)
  show ?thesis
  proof (cases "md = []")
    case True
    then show ?thesis using Some by (simp add: node_row_def)
  next
    case False
    then show ?thesis using Some
      by (simp add: node_row_def keys_fold_update_id keys_cleanup_key_names)
  qed
qed

text \<open>
  C7, as the code has it. The cleaned-up key holds none of the characters space, colon,
  slash, parentheses and full stop and no capital letter A to Z, but \<open>cleanup_string\<close> leaves
  hyphens alone: the cleaned-up key holds a hyphen exactly when the key does. So the
  writer's check in \<open>insert_row\<close> accepts the row built for a node exactly when none of the
  node's metadata keys holds a hyphen.
\<close>

theorem cleanup_string_sanitized:
  "set (cleanup_string key) \<inter> set '' :/().'' = {}
   \<and> set (cleanup_string key) \<inter> set ascii_uppercase = {}
   \<and> (CHR ''-'' \<in> set (cleanup_string key)) = (CHR ''-'' \<in> set key)
   \<and> (fst (insert_row db node_type (node_row g node)) = None) =
       (\<not> (\<exists>k \<in> set (map fst (case get_node_metadata g node of None \<Rightarrow> [] | Some md \<Rightarrow> md)).
              CHR ''-'' \<in> set k))"
proof -
  have "(\<exists>key \<in> set (map fst (node_row g node)). CHR ''-'' \<in> set key) =
        (\<exists>k \<in> set (map fst (case get_node_metadata g node of None \<Rightarrow> [] | Some md \<Rightarrow> md)).
              CHR ''-'' \<in> set k)"
    by (simp add: keys_node_row cleanup_string_hyphen_iff)
  then have "(fst (insert_row db node_type (node_row g node)) = None) =
       (\<not> (\<exists>k \<in> set (map fst (case get_node_metadata g node of None \<Rightarrow> [] | Some md \<Rightarrow> md)).
              CHR ''-'' \<in> set k))"
    by (simp only: insert_row_rejects_iff)
  then show ?thesis
    using cleanup_string_removed [of key] cleanup_string_no_upper [of key]
      cleanup_string_hyphen_iff [of key]
    by blast
qed

text \<open>
  C7, as stated, fails: the key \<open>Risk-Level\<close> keeps its hyphen, and a run of the script on
  a threat table with that column ends in the writer's error for the key.
\<close>

theorem cleanup_string_hyphen_counterexample:
  "CHR ''-'' \<in> set (cleanup_string ''Risk-Level'')
   \<and> fst (import_data hyphen_sources []) = Some (HyphenKey ''risk-level'')"
  by code_simp

section \<open>Metadata store\<close>

text \<open>
  C5. \<open>set_node_metadata\<close> does not protect a key that is already set: setting \<open>k\<close> again
  for the node \<open>n\<close> returns without error and replaces the stored value, because the guard
  looks the new value up among the keys instead of the tag. The guard fires where no key
  is overwritten: setting a new tag to a value that spells an existing key raises.
\<close>

theorem set_node_metadata_overwrites:
  "fst (set_node_metadata metadata_globals [''n''] ''k'' [Some ''v2'']) = None
   \<and> NODE_METADATA (snd (set_node_metadata metadata_globals [''n''] ''k'' [Some ''v2''])) =
       [(''n'', [(''k'', Some ''v2'')])]
   \<and> fst (set_node_metadata metadata_globals [''n''] ''other'' [Some ''k'']) =
       Some (MetadataAlreadySet ''n'')"
  by code_simp

section \<open>The node list handed to the writer\<close>

lemma distinct_register_row:
  assumes "distinct (map fst (TYPES_MAP g))"
  shows "distinct (map fst (TYPES_MAP (snd (register_row g df key_col ty mcols r))))"
  using assms
  by (auto simp: register_row_def distinct_update split: sum.splits option.splits)

lemma distinct_register_rows:
  assumes "distinct (map fst (TYPES_MAP g))"
  shows "distinct (map fst (TYPES_MAP (snd (register_rows g df key_col ty mcols rs))))"
  using assms
proof (induction rs arbitrary: g)
  case Nil
  then show ?case by simp
next
  case (Cons r rs)
  obtain e g' where step: "register_row g df key_col ty mcols r = (e, g')"
    by (cases "register_row g df key_col ty mcols r")
  have "distinct (map fst (TYPES_MAP g'))"
    using distinct_register_row [OF Cons.prems, of df key_col ty mcols r] step by simp
  then show ?case using Cons.IH [of g'] step Cons.prems by (cases e) simp_all
qed

lemma distinct_register_nodes:
  "distinct (map fst (TYPES_MAP g)) \<Longrightarrow>
   distinct (map fst (TYPES_MAP (snd (register_nodes g df key_col ty mcols))))"
  unfolding register_nodes_def by (rule distinct_register_rows)

lemma distinct_and_then:
  assumes "distinct (map fst (TYPES_MAP (snd r)))"
    and "\<And>g. distinct (map fst (TYPES_MAP g)) \<Longrightarrow> distinct (map fst (TYPES_MAP (snd (f g))))"
  shows "distinct (map fst (TYPES_MAP (snd (and_then r f))))"
  using assms by (cases r) (auto simp: and_then_def split: option.splits)

lemma distinct_register_all:
  assumes "distinct (map fst (TYPES_MAP g))"
  shows "distinct (map fst (TYPES_MAP (snd (register_all src g))))"
  unfolding register_all_def
  by (intro distinct_and_then distinct_register_nodes assms)

lemma register_row_no_dup: "fst (register_row g df key_col ty mcols r) \<noteq> Some DuplicateNodes"
proof -
  have get: "\<And>col e. row_get df r col = Inl e \<Longrightarrow> e \<noteq> DuplicateNodes"
    by (auto simp: row_get_def split: option.splits)
  have name: "\<And>e. row_name df r key_col = Inl e \<Longrightarrow> e \<noteq> DuplicateNodes"
    using get by (auto simp: row_name_def split: sum.splits option.splits)
  have md: "\<And>cols acc e. row_metadata df r cols acc = Inl e \<Longrightarrow> e \<noteq> DuplicateNodes"
  proof -
    fix cols acc e
    show "row_metadata df r cols acc = Inl e \<Longrightarrow> e \<noteq> DuplicateNodes"
      using get by (induction cols arbitrary: acc) (auto split: sum.splits)
  qed
  show ?thesis
    using name md
    by (auto simp: register_row_def split: sum.splits option.splits)
qed

lemma register_rows_no_dup: "fst (register_rows g df key_col ty mcols rs) \<noteq> Some DuplicateNodes"
proof (induction rs arbitrary: g)
  case Nil
  then show ?case by simp
next
  case (Cons r rs)
  obtain e g' where step: "register_row g df key_col ty mcols r = (e, g')"
    by (cases "register_row g df key_col ty mcols r")
  show ?case
    using register_row_no_dup [of g df key_col ty mcols r] Cons.IH [of g'] step
    by (cases e) simp_all
qed

lemma register_nodes_no_dup: "fst (register_nodes g df key_col ty mcols) \<noteq> Some DuplicateNodes"
  unfolding register_nodes_def by (rule register_rows_no_dup)

lemma and_then_no_dup:
  assumes "fst r \<noteq> Some DuplicateNodes" and "\<And>g. fst (f g) \<noteq> Some DuplicateNodes"
  shows "fst (and_then r f) \<noteq> Some DuplicateNodes"
  using assms by (cases r) (auto simp: and_then_def split: option.splits)

lemma register_all_no_dup: "fst (register_all src g) \<noteq> Some DuplicateNodes"
  unfolding register_all_def
  by (intro and_then_no_dup register_nodes_no_dup)

lemma collect_Inl: "collect xs = Inl e \<Longrightarrow> Inl e \<in> set xs"
  by (induction xs rule: collect.induct) (auto split: sum.splits)

lemma concat_results_Inl: "concat_results xs = Inl e \<Longrightarrow> Inl e \<in> set xs"
  by (induction xs rule: concat_results.induct) (auto split: sum.splits)

lemma df_names_no_dup: "df_names df col \<noteq> Inl DuplicateNodes"
proof
  assume "df_names df col = Inl DuplicateNodes"
  then have "Inl DuplicateNodes \<in> set (map (\<lambda>r. row_name df r col) (rows df))"
    by (auto simp: df_names_def dest: collect_Inl split: if_splits)
  then show False
    by (auto simp: row_name_def row_get_def split: sum.splits option.splits)
qed

lemma expand_relationship_no_dup:
  "expand_relationship df src dst rel expansion reverse \<noteq> Inl DuplicateNodes"
proof
  assume "expand_relationship df src dst rel expansion reverse = Inl DuplicateNodes"
  then have "Inl DuplicateNodes \<in> set (map (\<lambda>r. case row_get df r src of
                          Inl e \<Rightarrow> Inl e
                        | Inr s \<Rightarrow> (case row_get df r dst of
                                     Inl e \<Rightarrow> Inl e
                                   | Inr d \<Rightarrow> Inr (s, d, rel, expansion, reverse)))
                  (rows df))"
    unfolding expand_relationship_def by (rule collect_Inl)
  then show False
    by (auto simp: row_get_def split: sum.splits option.splits)
qed

lemma all_relationships_no_dup: "all_relationships src cs is \<noteq> Inl DuplicateNodes"
proof
  assume "all_relationships src cs is = Inl DuplicateNodes"
  then show False
    unfolding all_relationships_def
    by (auto dest!: concat_results_Inl
          simp: expand_relationship_no_dup expand_relationship_no_dup [symmetric])
qed

lemma create_nodes_no_dup: "fst (create_nodes g db nodes) \<noteq> Some DuplicateNodes"
  by (induction nodes arbitrary: db)
     (auto simp: resolve_name_to_type_def insert_row_def split: sum.splits option.splits if_splits)

lemma map_relationships_no_dup:
  "fst (map_relationships g db node nt rel reverse md mapped ds) \<noteq> Some DuplicateNodes"
proof (induction ds arbitrary: g db mapped)
  case Nil
  then show ?case by simp
next
  case (Cons d ds)
  show ?case
    using Cons.IH
    by (auto simp: Let_def resolve_name_to_type_def split: sum.splits option.splits if_splits)
qed

lemma create_row_relationships_no_dup:
  "fst (create_row_relationships g db t) \<noteq> Some DuplicateNodes"
  by (auto simp: create_row_relationships_def Let_def resolve_name_to_type_def
        map_relationships_no_dup
      split: sum.splits option.splits if_splits prod.splits)

lemma create_relationships_no_dup:
  "fst (create_relationships g db ts) \<noteq> Some DuplicateNodes"
proof (induction ts arbitrary: g db)
  case Nil
  then show ?case by simp
next
  case (Cons t ts)
  obtain e g' db' where step: "create_row_relationships g db t = (e, g', db')"
    by (cases "create_row_relationships g db t")
  show ?case
    using create_row_relationships_no_dup [of g db t] Cons.IH [of g' db'] step
    by (cases e) simp_all
qed

lemma check_duplicates_distinct: "distinct xs \<Longrightarrow> check_duplicates xs = None"
  by (simp add: check_duplicates_def distinct_card)

lemma check_duplicates_registered:
  "check_duplicates (get_registered_nodes (snd (register_all src initial_globals))) = None"
proof -
  have "distinct (map fst (TYPES_MAP initial_globals))" by (simp add: initial_globals_def)
  then have "distinct (map fst (TYPES_MAP (snd (register_all src initial_globals))))"
    by (rule distinct_register_all)
  then show ?thesis
    unfolding get_registered_nodes_def by (rule check_duplicates_distinct)
qed

text \<open>
  C10. Whatever the source tables hold, a run of the script never ends in the error
  "Duplicate nodes found": the node list is the key list of \<open>TYPES_MAP\<close> after the
  registrations, which has no name twice and has exactly the registry's keys as its
  elements, so the check passes.
\<close>

theorem duplicate_check_never_fails:
  "fst (import_data src db0) \<noteq> Some DuplicateNodes
   \<and> check_duplicates (get_registered_nodes (snd (register_all src initial_globals))) = None
   \<and> distinct (get_registered_nodes (snd (register_all src initial_globals)))
   \<and> set (get_registered_nodes (snd (register_all src initial_globals))) =
       dom (map_of (TYPES_MAP (snd (register_all src initial_globals))))"
proof -
  obtain e g where reg: "register_all src initial_globals = (e, g)"
    by (cases "register_all src initial_globals")
  have chk: "check_duplicates (get_registered_nodes g) = None"
    using check_duplicates_registered [of src] reg by simp
  have e: "e \<noteq> Some DuplicateNodes"
    using register_all_no_dup [of src initial_globals] reg by simp
  have "distinct (map fst (TYPES_MAP initial_globals))" by (simp add: initial_globals_def)
  then have dist: "distinct (get_registered_nodes g)"
    using distinct_register_all [of initial_globals src] reg
    by (simp add: get_registered_nodes_def)
  have keys: "set (get_registered_nodes g) = dom (map_of (TYPES_MAP g))"
    by (simp add: get_registered_nodes_def dom_map_of_conv_image_fst)
  have run: "fst (import_data src db0) \<noteq> Some DuplicateNodes"
  proof (cases e)
    case (Some err)
    then show ?thesis using e reg by (simp add: import_data_def)
  next
    case None
    show ?thesis
      using reg None chk df_names_no_dup all_relationships_no_dup
        create_nodes_no_dup [of g "drop_all_data db0" "get_registered_nodes g"]
        create_relationships_no_dup
      by (auto simp: import_data_def Let_def split: sum.splits option.splits prod.splits)
  qed
  from run chk dist keys reg show ?thesis by simp
qed

section \<open>Edge materialization\<close>

text \<open>The inner loop against the specification's list functions: it writes the edges of
  the destinations up to the first one whose type lookup raises, and raises for that one.\<close>

lemma first_seen_Nil: "first_seen [] = []"
  by (simp add: first_seen_def)

lemma remdups_snoc: "remdups (xs @ [x]) = filter (\<lambda>y. y \<noteq> x) (remdups xs) @ [x]"
  by (induction xs) auto

lemma first_seen_Cons: "first_seen (x # xs) = x # filter (\<lambda>y. y \<noteq> x) (first_seen xs)"
  by (simp add: first_seen_def remdups_snoc rev_filter)


lemma distinct_first_seen: "distinct (first_seen xs)"
  by (simp add: first_seen_def)

lemma record_relationship_frame:
  "TYPES_MAP (record_relationship g a b c) = TYPES_MAP g"
  "NAMES_MAP (record_relationship g a b c) = NAMES_MAP g"
  "DROP_COMPONENTS (record_relationship g a b c) = DROP_COMPONENTS g"
  "EXPANSIONS (record_relationship g a b c) = EXPANSIONS g"
  "NODE_METADATA (record_relationship g a b c) = NODE_METADATA g"
  by (simp_all add: record_relationship_def Let_def)

lemma record_relationship_lookups:
  "resolve_name_map (record_relationship g a b c) = resolve_name_map g"
  "drop_component (record_relationship g a b c) = drop_component g"
  "resolve_name_to_type (record_relationship g a b c) = resolve_name_to_type g"
  "is_registered (record_relationship g a b c) = is_registered g"
  "type_of_name (record_relationship g a b c) = type_of_name g"
  "spec_edge (record_relationship g a b c) = spec_edge g"
  by (auto simp: fun_eq_iff resolve_name_map_def drop_component_def resolve_name_to_type_def
        is_registered_def type_of_name_def spec_edge_def record_relationship_frame)

lemma map_relationships_spec:
  "fst (map_relationships g db node nt rel reverse md mapped ds) =
     (case dropWhile (is_registered g)
             (filter (\<lambda>d. d \<notin> set mapped)
                (first_seen (map (resolve_name_map g) (filter (\<lambda>d. \<not> drop_component g d) ds)))) of
        [] \<Rightarrow> None | d # _ \<Rightarrow> Some (NotFound d))
   \<and> snd (snd (map_relationships g db node nt rel reverse md mapped ds)) =
       db @ map (spec_edge g node nt rel reverse md)
              (takeWhile (is_registered g)
                 (filter (\<lambda>d. d \<notin> set mapped)
                    (first_seen (map (resolve_name_map g) (filter (\<lambda>d. \<not> drop_component g d) ds)))))"
proof (induction ds arbitrary: g db mapped)
  case Nil
  then show ?case by (simp add: first_seen_Nil)
next
  case (Cons d ds)
  let ?rest = "first_seen (map (resolve_name_map g) (filter (\<lambda>d. \<not> drop_component g d) ds))"
  show ?case
  proof (cases "drop_component g d")
    case True
    then show ?thesis using Cons.IH [of g db mapped] by simp
  next
    case False
    let ?d' = "resolve_name_map g d"
    have cands: "first_seen (map (resolve_name_map g) (filter (\<lambda>d. \<not> drop_component g d) (d # ds)))
                 = ?d' # filter (\<lambda>y. y \<noteq> ?d') ?rest"
      using False by (simp add: first_seen_Cons)
    show ?thesis
    proof (cases "?d' \<in> set mapped")
      case True
      have "filter (\<lambda>d. d \<notin> set mapped) (?d' # filter (\<lambda>y. y \<noteq> ?d') ?rest) =
            filter (\<lambda>d. d \<notin> set mapped) ?rest"
        using True by (auto intro: filter_cong)
      then show ?thesis using Cons.IH [of g db mapped] False True cands by simp
    next
      case fresh: False
      have f: "filter (\<lambda>d. d \<notin> set mapped) (?d' # filter (\<lambda>y. y \<noteq> ?d') ?rest) =
            ?d' # filter (\<lambda>d. d \<notin> set (mapped @ [?d'])) ?rest"
        using fresh by (auto intro: filter_cong)
      show ?thesis
      proof (cases "resolve_name_to_type g ?d'")
        case (Inl e)
        then have e: "e = NotFound ?d'"
          by (auto simp: resolve_name_to_type_def split: option.splits if_splits)
        have "\<not> is_registered g ?d'" using Inl by (simp add: is_registered_def)
        then show ?thesis using False fresh Inl e cands f by simp
      next
        case (Inr ty)
        have reg: "is_registered g ?d'" using Inr by (simp add: is_registered_def)
        have ty: "type_of_name g ?d' = ty" using Inr by (simp add: type_of_name_def)
        show ?thesis
        proof (cases reverse)
          case True
          show ?thesis
            using Cons.IH [of "record_relationship g ty nt rel"
                "create_relationship db ty ''name'' ?d' nt ''name'' node rel md" "mapped @ [?d']"]
              False fresh Inr reg ty cands f True
            by (simp add: Let_def record_relationship_lookups create_relationship_def spec_edge_def)
        next
          case rev: False
          show ?thesis
            using Cons.IH [of "record_relationship g nt ty rel"
                "create_relationship db nt ''name'' node ty ''name'' ?d' rel md" "mapped @ [?d']"]
              False fresh Inr reg ty cands f rev
            by (simp add: Let_def record_relationship_lookups create_relationship_def spec_edge_def)
        qed
      qed
    qed
  qed
qed

lemma map_relationships_frame:
  "TYPES_MAP (fst (snd (map_relationships g db node nt rel reverse md mapped ds))) = TYPES_MAP g
   \<and> NAMES_MAP (fst (snd (map_relationships g db node nt rel reverse md mapped ds))) = NAMES_MAP g
   \<and> DROP_COMPONENTS (fst (snd (map_relationships g db node nt rel reverse md mapped ds))) = DROP_COMPONENTS g
   \<and> EXPANSIONS (fst (snd (map_relationships g db node nt rel reverse md mapped ds))) = EXPANSIONS g
   \<and> NODE_METADATA (fst (snd (map_relationships g db node nt rel reverse md mapped ds))) = NODE_METADATA g"
proof (induction ds arbitrary: g db mapped)
  case Nil
  then show ?case by simp
next
  case (Cons d ds)
  show ?case
    using Cons.IH
    by (auto simp: Let_def record_relationship_frame record_relationship_lookups
        split: sum.splits)
qed

lemma create_row_relationships_resolved:
  assumes "resolve_name_to_type g (resolve_name_map g n) = Inr nt"
    and "(if is_all (map strip (split_comma_space text)) then expansion
          else Some (map strip (split_comma_space text))) = Some names"
  shows "create_row_relationships g db (Some n, Some text, rel, expansion, reverse) =
           map_relationships g db (resolve_name_map g n) nt rel reverse
             [(''all'', is_all (map strip (split_comma_space text)))] []
             (concat (map (get_expansions g) names))"
  using assms by (simp add: create_row_relationships_def Let_def)

lemma row_writes:
  assumes "resolve_name_to_type g (resolve_name_map g n) = Inr nt"
    and "(if is_all (map strip (split_comma_space text)) then expansion
          else Some (map strip (split_comma_space text))) = Some names"
  shows "snd (snd (create_row_relationships g db (Some n, Some text, rel, expansion, reverse))) =
           db @ map (spec_edge g (resolve_name_map g n) nt rel reverse
                       [(''all'', is_all (map strip (split_comma_space text)))])
                  (takeWhile (is_registered g) (spec_destinations g names))"
    and "fst (create_row_relationships g db (Some n, Some text, rel, expansion, reverse)) =
           (case dropWhile (is_registered g) (spec_destinations g names) of
              [] \<Rightarrow> None | d # _ \<Rightarrow> Some (NotFound d))"
  using map_relationships_spec [of g db "resolve_name_map g n" nt rel reverse
      "[(''all'', is_all (map strip (split_comma_space text)))]" "[]"
      "concat (map (get_expansions g) names)"]
  unfolding create_row_relationships_resolved [OF assms] spec_destinations_def
  by simp_all

lemma far_end_spec_edge: "far_end reverse (spec_edge g node nt rel reverse md d) = d"
  by (simp add: spec_edge_def)

lemma distinct_spec_destinations: "distinct (spec_destinations g names)"
  by (simp add: spec_destinations_def distinct_first_seen)

lemma takeWhile_dropWhile_disjoint:
  assumes "distinct xs"
  shows "set (takeWhile P xs) \<inter> set (dropWhile P xs) = {}"
proof -
  have "distinct (takeWhile P xs @ dropWhile P xs)" using assms by simp
  then show ?thesis by (simp only: distinct_append)
qed

text \<open>
  C1, as the code has it. For a row whose source resolves and whose destination text gives
  the names to map, the row raises \<open>NotFound\<close> (the specification's UnknownEntityError) for
  the first destination, in order, that is not registered, and returns normally when there
  is none. No edge is written for that destination or for any destination after it, and
  the rows after a row that raised are not processed. The edges of the destinations before
  it are written one by one as the loop goes and stay written: the row is not atomic.
\<close>

theorem edge_emission_incremental:
  assumes "resolve_name_to_type g (resolve_name_map g n) = Inr nt"
    and "(if is_all (map strip (split_comma_space text)) then expansion
          else Some (map strip (split_comma_space text))) = Some names"
  shows "fst (create_row_relationships g db (Some n, Some text, rel, expansion, reverse)) =
           (case dropWhile (is_registered g) (spec_destinations g names) of
              [] \<Rightarrow> None | d # _ \<Rightarrow> Some (NotFound d))
       \<and> snd (snd (create_row_relationships g db (Some n, Some text, rel, expansion, reverse))) =
           db @ map (spec_edge g (resolve_name_map g n) nt rel reverse
                       [(''all'', is_all (map strip (split_comma_space text)))])
                  (takeWhile (is_registered g) (spec_destinations g names))
       \<and> set (map (far_end reverse)
                (drop (length db)
                   (snd (snd (create_row_relationships g db
                                (Some n, Some text, rel, expansion, reverse))))))
           \<inter> set (dropWhile (is_registered g) (spec_destinations g names)) = {}
       \<and> (fst (create_row_relationships g db (Some n, Some text, rel, expansion, reverse)) \<noteq> None
            \<longrightarrow> create_relationships g db ((Some n, Some text, rel, expansion, reverse) # ts) =
                create_row_relationships g db (Some n, Some text, rel, expansion, reverse))"
proof -
  let ?r = "create_row_relationships g db (Some n, Some text, rel, expansion, reverse)"
  let ?D = "spec_destinations g names"
  have err: "fst ?r = (case dropWhile (is_registered g) ?D of
                        [] \<Rightarrow> None | d # _ \<Rightarrow> Some (NotFound d))"
    using assms by (rule row_writes(2))
  have db: "snd (snd ?r) = db @ map (spec_edge g (resolve_name_map g n) nt rel reverse
                       [(''all'', is_all (map strip (split_comma_space text)))])
                  (takeWhile (is_registered g) ?D)"
    using assms by (rule row_writes(1))
  have "map (far_end reverse) (drop (length db) (snd (snd ?r))) = takeWhile (is_registered g) ?D"
    unfolding db by (simp add: comp_def far_end_spec_edge)
  then have none: "set (map (far_end reverse) (drop (length db) (snd (snd ?r))))
           \<inter> set (dropWhile (is_registered g) ?D) = {}"
    using takeWhile_dropWhile_disjoint [OF distinct_spec_destinations, of "is_registered g" g names]
    by simp
  have stop: "fst ?r \<noteq> None \<longrightarrow>
       create_relationships g db ((Some n, Some text, rel, expansion, reverse) # ts) = ?r"
    by (cases ?r) (auto split: option.splits)
  from err db none stop show ?thesis by blast
qed

theorem edge_emission_incremental_witness:
  "resolve_name_to_type edge_globals (resolve_name_map edge_globals ''O1 Interface'') = Inr ''Interface''
   \<and> fst (create_row_relationships edge_globals []
            (Some ''O1 Interface'', Some ''SMO, Ghost, Non-RT RIC'', ''CONNECTS'', None, False)) =
       Some (NotFound ''Ghost'')
   \<and> snd (snd (create_row_relationships edge_globals []
            (Some ''O1 Interface'', Some ''SMO, Ghost, Non-RT RIC'', ''CONNECTS'', None, False))) =
       [spec_edge edge_globals ''O1 Interface'' ''Interface'' ''CONNECTS'' False [(''all'', False)] ''SMO'']
   \<and> create_relationships edge_globals []
         [(Some ''O1 Interface'', Some ''SMO, Ghost, Non-RT RIC'', ''CONNECTS'', None, False),
          (Some ''O1 Interface'', Some ''SMO'', ''CONNECTS'', None, False)] =
       create_row_relationships edge_globals []
         (Some ''O1 Interface'', Some ''SMO, Ghost, Non-RT RIC'', ''CONNECTS'', None, False)"
proof -
  have src: "resolve_name_to_type edge_globals (resolve_name_map edge_globals ''O1 Interface'') =
               Inr ''Interface''"
    by code_simp
  have toks: "map strip (split_comma_space ''SMO, Ghost, Non-RT RIC'') =
                [''SMO'', ''Ghost'', ''Non-RT RIC'']"
    by code_simp
  have names: "(if is_all (map strip (split_comma_space ''SMO, Ghost, Non-RT RIC'')) then None
          else Some (map strip (split_comma_space ''SMO, Ghost, Non-RT RIC''))) =
          Some [''SMO'', ''Ghost'', ''Non-RT RIC'']"
    by code_simp
  have no_all: "is_all (map strip (split_comma_space ''SMO, Ghost, Non-RT RIC'')) = False"
    by code_simp
  have dests: "spec_destinations edge_globals [''SMO'', ''Ghost'', ''Non-RT RIC''] =
                 [''SMO'', ''Ghost'', ''Non-RT RIC'']"
    by code_simp
  have reg: "is_registered edge_globals ''SMO''" "\<not> is_registered edge_globals ''Ghost''"
    by code_simp+
  have node: "resolve_name_map edge_globals ''O1 Interface'' = ''O1 Interface''"
    by code_simp
  show ?thesis
    using edge_emission_incremental [OF src names, of "[]" "''CONNECTS''" False
        "[(Some ''O1 Interface'', Some ''SMO'', ''CONNECTS'', None, False)]"]
      src no_all dests reg node
    by simp
qed

text \<open>
  C1, as stated, fails: the row \<open>SMO, Ghost, Non-RT RIC\<close> raises for the unregistered
  \<open>Ghost\<close>, and the edge to \<open>SMO\<close> of the same row has been written.
\<close>

theorem edge_row_not_atomic_counterexample:
  "fst (create_row_relationships edge_globals []
          (Some ''O1 Interface'', Some ''SMO, Ghost, Non-RT RIC'', ''CONNECTS'', None, False)) =
     Some (NotFound ''Ghost'')
   \<and> snd (snd (create_row_relationships edge_globals []
          (Some ''O1 Interface'', Some ''SMO, Ghost, Non-RT RIC'', ''CONNECTS'', None, False))) =
     [CreateRelationship
        \<lparr> node1_type = ''Interface'', node1_id_name = ''name'', node1_id = ''O1 Interface'',
          node2_type = ''Component'', node2_id_name = ''name'', node2_id = ''SMO'',
          relationship_type = ''CONNECTS'', relationship_metadata = [(''all'', False)] \<rparr>]"
  by code_simp

text \<open>
  C6, as the code has it. A row whose destination cell is NaN and whose source name, after
  alias resolution, is registered is skipped: nothing is raised, nothing is written, no
  registry changes, and the loop goes on with the remaining rows.
\<close>

theorem null_destination_skipped:
  assumes "resolve_name_to_type g (resolve_name_map g n) = Inr nt"
  shows "create_row_relationships g db (Some n, None, rel, expansion, reverse) = (None, g, db)
       \<and> create_relationships g db ((Some n, None, rel, expansion, reverse) # ts) =
           create_relationships g db ts"
  using assms by (simp add: create_row_relationships_def)

theorem null_destination_skipped_witness:
  "resolve_name_to_type edge_globals (resolve_name_map edge_globals ''O1 Interface'') = Inr ''Interface''
   \<and> create_row_relationships edge_globals [] (Some ''O1 Interface'', None, ''CONNECTS'', None, False) =
       (None, edge_globals, [])
   \<and> create_relationships edge_globals []
         [(Some ''O1 Interface'', None, ''CONNECTS'', None, False),
          (Some ''O1 Interface'', Some ''SMO'', ''CONNECTS'', None, False)] =
       create_relationships edge_globals []
         [(Some ''O1 Interface'', Some ''SMO'', ''CONNECTS'', None, False)]"
proof -
  have src: "resolve_name_to_type edge_globals (resolve_name_map edge_globals ''O1 Interface'') =
               Inr ''Interface''"
    by code_simp
  show ?thesis
    using null_destination_skipped [OF src, of "[]" "''CONNECTS''" None False
        "[(Some ''O1 Interface'', Some ''SMO'', ''CONNECTS'', None, False)]"] src
    by simp
qed

text \<open>
  C6, as stated, fails twice. The source of a row is resolved before its destination is
  tested: a run whose interface table has the single row \<open>E2\<close> with no connections
  raises, since the alias \<open>E2 Interface\<close> of the source is not registered. And an empty
  string is not NaN: it is split into one empty token, whose type lookup raises.
\<close>

theorem null_destination_counterexample:
  "fst (import_data alias_sources []) = Some (NotFound ''E2 Interface'')
   \<and> fst (create_row_relationships edge_globals []
            (Some ''O1 Interface'', Some '''', ''CONNECTS'', None, False)) = Some (NotFound '''')"
  by code_simp









section \<open>Appending to the master file\<close>













lemma union_loop_subset: "set incoming \<subseteq> set out \<Longrightarrow> union_loop out incoming = out"
  by (induction incoming arbitrary: out) auto















end
